theory Spec2Isabelle
  imports Complex_Main
begin

section \<open>NeuralManager (train/classes/cls\_nnetwork.py): a shallow embedding\<close>

text \<open>
  The class \<open>NeuralManager\<close> is glue around three libraries: a scaler
  (scikit-learn), a layered model (Keras) and a plotting surface (matplotlib).
  The embedding keeps the control flow, the index arithmetic and the dictionary
  handling of the Python source. What a library computes is either modelled
  directly where its behaviour is plain data movement (array slicing, stacking and
  reshaping) or taken as a parameter (fitting a scaler, compiling and fitting a
  model). Every Python exception is a value of type \<open>error\<close>; a function that can
  raise returns \<open>error + 'r\<close>.
\<close>

subsection \<open>Exceptions and plain values\<close>

datatype error =
    TypeError string
  | ValueError string
  | NameError string
  | UnboundLocalError string
  | AttributeError string
  | KeyError string
  | IndexError string
  | LibraryError string

datatype pyval =
    VNone
  | VBool bool
  | VInt int
  | VStr string
  | VList "pyval list"

subsection \<open>Arrays\<close>

text \<open>
  A numpy array is its shape together with its cells in row-major order.
  \<open>wf_nd\<close> says that the number of cells is the product of the shape.
\<close>

record 'a ndarray =
  shape :: "nat list"
  data :: "'a list"

definition wf_nd :: "'a ndarray \<Rightarrow> bool" where
  "wf_nd a = (length (data a) = prod_list (shape a))"

text \<open>\<open>len(a)\<close>: the first dimension; a zero-dimensional array has no length.\<close>

definition py_len :: "'a ndarray \<Rightarrow> error + nat" where
  "py_len a = (case shape a of
       [] \<Rightarrow> Inl (TypeError ''len() of unsized object'')
     | n # rest \<Rightarrow> Inr n)"

text \<open>
  A slice bound \<open>i\<close> on an axis of length \<open>n\<close>: a negative bound counts from the
  end, and every bound is clipped into \<open>[0, n]\<close>.
\<close>

definition slice_bound :: "int \<Rightarrow> nat \<Rightarrow> nat" where
  "slice_bound i n =
     (if i < 0 then (if i + int n < 0 then 0 else nat (i + int n))
      else (if int n \<le> i then n else nat i))"

text \<open>\<open>a[start : stop]\<close> along the first axis.\<close>

definition nd_slice :: "'a ndarray \<Rightarrow> int \<Rightarrow> int \<Rightarrow> error + 'a ndarray" where
  "nd_slice a start stop = (case shape a of
       [] \<Rightarrow> Inl (IndexError ''too many indices for array'')
     | n # rest \<Rightarrow>
         (let s = slice_bound start n;
              e = slice_bound stop n;
              cnt = e - s;
              stride = prod_list rest
          in Inr \<lparr>shape = cnt # rest,
                  data = take (cnt * stride) (drop (s * stride) (data a))\<rparr>))"

text \<open>
  \<open>np.asarray\<close> of a Python list of arrays: the arrays are stacked along a new
  first axis. An empty list gives an empty one-dimensional array. Arrays of
  different shapes cannot be stacked: numpy (from version 1.24) raises ValueError.
\<close>

fun np_asarray :: "'a ndarray list \<Rightarrow> error + 'a ndarray" where
  "np_asarray [] = Inr \<lparr>shape = [0], data = []\<rparr>"
| "np_asarray (w # ws) =
     (if list_all (\<lambda>v. shape v = shape w) ws
      then Inr \<lparr>shape = Suc (length ws) # shape w, data = concat (map data (w # ws))\<rparr>
      else Inl (ValueError ''setting an array element with a sequence: inhomogeneous shape''))"

text \<open>
  The sub-arrays of \<open>a\<close> along its first axis, in order: what iterating over \<open>a\<close>
  yields. For a table these are its rows. (A zero-dimensional array has none.)
\<close>

definition nd_rows :: "'a ndarray \<Rightarrow> 'a ndarray list" where
  "nd_rows a = (case shape a of
       [] \<Rightarrow> []
     | n # rest \<Rightarrow>
         map (\<lambda>i. \<lparr>shape = rest,
                    data = take (prod_list rest) (drop (i * prod_list rest) (data a))\<rparr>)
             [0 ..< n])"

subsection \<open>The sequence windower\<close>

text \<open>
  \<open>_unroll_array_to_sequence\<close> returns either \<open>False\<close> or a pair of arrays.
  What it prints is returned beside the result.
\<close>

datatype ('a, 'b) unrolled =
    RetFalse
  | RetPair "'a ndarray" "'b ndarray"

fun falsy :: "('a, 'b) unrolled \<Rightarrow> bool" where
  "falsy RetFalse = True"
| "falsy (RetPair wx wy) = False"

text \<open>The body of the \<open>for\<close> loop, over the indices that \<open>range\<close> yields.\<close>

fun unroll_loop ::
  "'a ndarray \<Rightarrow> 'b ndarray \<Rightarrow> int \<Rightarrow> nat list \<Rightarrow>
   'a ndarray list \<Rightarrow> 'b ndarray list \<Rightarrow> error + ('a ndarray list \<times> 'b ndarray list)" where
  "unroll_loop X y sequence_length [] set_X set_y = Inr (set_X, set_y)"
| "unroll_loop X y sequence_length (index # rest) set_X set_y =
     (case nd_slice X (int index) (int index + sequence_length) of
        Inl e \<Rightarrow> Inl e
      | Inr wx \<Rightarrow>
          (case nd_slice y (int index) (int index + sequence_length) of
             Inl e \<Rightarrow> Inl e
           | Inr wy \<Rightarrow> unroll_loop X y sequence_length rest (set_X @ [wx]) (set_y @ [wy])))"

definition unroll_array_to_sequence ::
  "'a ndarray \<Rightarrow> 'b ndarray \<Rightarrow> int \<Rightarrow> string list \<times> (error + ('a, 'b) unrolled)" where
  "unroll_array_to_sequence X y sequence_length =
     (case py_len X of
        Inl e \<Rightarrow> ([], Inl e)
      | Inr n \<Rightarrow>
          (case py_len y of
             Inl e \<Rightarrow> ([], Inl e)
           | Inr m \<Rightarrow>
               if n \<noteq> m then ([''>>> X and y data should have same len...''], Inr RetFalse)
               else
                 (case unroll_loop X y sequence_length
                         [0 ..< nat (int n - sequence_length)] [] [] of
                    Inl e \<Rightarrow> ([], Inl e)
                  | Inr (set_X, set_y) \<Rightarrow>
                      (case np_asarray set_X of
                         Inl e \<Rightarrow> ([], Inl e)
                       | Inr ax \<Rightarrow>
                           (case np_asarray set_y of
                              Inl e \<Rightarrow> ([], Inl e)
                            | Inr ay \<Rightarrow> ([], Inr (RetPair ax ay)))))))"

text \<open>
  The window that the loop cuts at index \<open>i\<close>, as a total function (the slice
  exists whenever the array has a first axis).
\<close>

definition window :: "'a ndarray \<Rightarrow> int \<Rightarrow> nat \<Rightarrow> 'a ndarray" where
  "window a L i = (case nd_slice a (int i) (int i + L) of Inr w \<Rightarrow> w | Inl e \<Rightarrow> a)"

subsection \<open>Dictionaries\<close>

text \<open>
  A Python dict keeps its keys in insertion order: an association list in which
  assigning to a key that is present replaces its value in place, and assigning to
  a new key appends it. \<open>map_of\<close> reads a key.
\<close>

type_synonym ('k, 'v) dict = "('k \<times> 'v) list"

fun dict_setitem :: "('k, 'v) dict \<Rightarrow> 'k \<Rightarrow> 'v \<Rightarrow> ('k, 'v) dict" where
  "dict_setitem [] k v = [(k, v)]"
| "dict_setitem ((k', v') # d) k v =
     (if k' = k then (k, v) # d else (k', v') # dict_setitem d k v)"

definition dict_getitem :: "(string, 'v) dict \<Rightarrow> string \<Rightarrow> error + 'v" where
  "dict_getitem d k = (case map_of d k of None \<Rightarrow> Inl (KeyError k) | Some v \<Rightarrow> Inr v)"

text \<open>
  \<open>_helpers_set_dict_default(dictionar, keys)\<close>: \<open>keys\<close> is a list, a dict, or
  anything else (then nothing happens). \<open>set_default\<close> is the body of both loops:
  \<open>dictionar[key] = dictionar[key] if key in dictionar else val\<close>.
\<close>

datatype 'k default_keys =
    KeysList "'k list"
  | KeysDict "('k, pyval) dict"
  | KeysOther

definition set_default :: "'k \<Rightarrow> pyval \<Rightarrow> ('k, pyval) dict \<Rightarrow> ('k, pyval) dict" where
  "set_default key val dictionar =
     dict_setitem dictionar key
       (case map_of dictionar key of Some v \<Rightarrow> v | None \<Rightarrow> val)"

fun helpers_set_dict_default :: "('k, pyval) dict \<Rightarrow> 'k default_keys \<Rightarrow> ('k, pyval) dict" where
  "helpers_set_dict_default dictionar (KeysList keys) =
     fold (\<lambda>key. set_default key VNone) keys dictionar"
| "helpers_set_dict_default dictionar (KeysDict keys) =
     fold (\<lambda>(key, val). set_default key val) keys dictionar"
| "helpers_set_dict_default dictionar KeysOther = dictionar"

subsection \<open>The libraries\<close>

text \<open>
  What the chart formatter does to a plotting surface: the surface is the list of
  the drawing commands it has received.
\<close>

datatype 'a propval =
    PNone
  | PStr string
  | PNum 'a
  | PSeries "'a list"

datatype 'a ax_cmd =
    Plot "'a list" string
  | Legend int
  | Spine_set_visible string bool
  | Grid bool string
  | Text nat 'a string
  | Set_ylim "'a propval"
  | Set_title "'a propval"
  | Set_xlabel "'a propval"
  | Set_ylabel "'a propval"

text \<open>
  The calls a method makes into the libraries, and what it prints, in order.
  \<open>Keras_fit x y epochs batch_size x_val y_val verbose\<close> is one training run.
\<close>

datatype ('a, 'l) event =
    Print string
  | Scaler_fit_transform "'a ndarray option"
  | Scaler_transform "'a ndarray option"
  | Keras_add 'l
  | Keras_compile "(string, pyval) dict"
  | Keras_summary
  | Keras_fit "'a ndarray" "'a ndarray" int int "'a ndarray" "'a ndarray" int
  | Plt_subplots
  | Ax "'a ax_cmd"

fun is_fit :: "('a, 'l) event \<Rightarrow> bool" where
  "is_fit (Scaler_fit_transform t) = True"
| "is_fit e = False"

fun is_training :: "('a, 'l) event \<Rightarrow> bool" where
  "is_training (Keras_fit x y ep bs xv yv vb) = True"
| "is_training e = False"

text \<open>
  A scaler class of scikit-learn, as far as the code uses it: \<open>fit_params\<close> is what
  fitting on a table computes (or the exception it raises), \<open>apply_params\<close> is the
  transform with given fitted parameters. The argument is whatever the attribute
  holds, so possibly \<open>None\<close>. A scaler object is unfitted or holds its fitted
  parameters. \<open>fit_transform\<close> fits and then transforms; \<open>transform\<close> reads the
  fitted parameters and leaves the object as it is.
\<close>

record ('a, 'p) scaler_class =
  fit_params :: "'a ndarray option \<Rightarrow> error + 'p"
  apply_params :: "'p \<Rightarrow> 'a ndarray option \<Rightarrow> error + 'a ndarray"

datatype 'p scaler_state =
    Unfitted
  | Fitted 'p

definition scaler_fit_transform ::
  "('a, 'p) scaler_class \<Rightarrow> 'p scaler_state \<Rightarrow> 'a ndarray option \<Rightarrow>
   'p scaler_state \<times> (error + 'a ndarray)" where
  "scaler_fit_transform c s X =
     (case fit_params c X of
        Inl e \<Rightarrow> (s, Inl e)
      | Inr p \<Rightarrow> (Fitted p, apply_params c p X))"

definition scaler_transform ::
  "('a, 'p) scaler_class \<Rightarrow> 'p scaler_state \<Rightarrow> 'a ndarray option \<Rightarrow>
   'p scaler_state \<times> (error + 'a ndarray)" where
  "scaler_transform c s X =
     (case s of
        Unfitted \<Rightarrow> (s, Inl (LibraryError ''NotFittedError''))
      | Fitted p \<Rightarrow> (s, apply_params c p X))"

text \<open>
  A Keras \<open>Sequential\<close> model: its layers in order and the configuration it was
  compiled with. The library decides whether a layer or a configuration is
  accepted, whether the summary can be printed, and what a training run returns
  (the history: metric name to per-epoch values); these are parameters, together
  with the two things the chart needs from floating point: the text of
  \<open>f"{val:.4f}"\<close> and the literal \<open>5e-4\<close>.
\<close>

record 'l sequential =
  layers :: "'l list"
  compiled :: "(string, pyval) dict option"

record ('a, 'l) libs =
  add_error :: "'l list \<Rightarrow> 'l \<Rightarrow> error option"
  compile_error :: "'l list \<Rightarrow> (string, pyval) dict \<Rightarrow> error option"
  summary_error :: "'l sequential \<Rightarrow> error option"
  fit_history ::
    "'l sequential \<Rightarrow> 'a ndarray \<Rightarrow> 'a ndarray \<Rightarrow> int \<Rightarrow> int \<Rightarrow>
     'a ndarray \<Rightarrow> 'a ndarray \<Rightarrow> int \<Rightarrow> error + (string, 'a list) dict"
  format_4f :: "'a \<Rightarrow> string"
  float_5e_4 :: "'a"

text \<open>
  \<open>a.reshape(d1, ..., dk)\<close>: the cells stay, the shape changes. A negative
  dimension is the unknown one and is inferred; there may be only one. The new
  shape must hold exactly the cells of the array.
\<close>

definition nd_reshape :: "'a ndarray \<Rightarrow> int list \<Rightarrow> error + 'a ndarray" where
  "nd_reshape a dims =
     (let total = prod_list (shape a);
          known = prod_list (map nat (filter (\<lambda>d. 0 \<le> d) dims));
          unknown = length (filter (\<lambda>d. d < 0) dims)
      in if 1 < unknown then Inl (ValueError ''can only specify one unknown dimension'')
         else if unknown = 1 then
           (if known = 0 \<or> total mod known \<noteq> 0
            then Inl (ValueError ''cannot reshape array'')
            else Inr \<lparr>shape = map (\<lambda>d. if d < 0 then total div known else nat d) dims,
                      data = data a\<rparr>)
         else
           (if total \<noteq> known
            then Inl (ValueError ''cannot reshape array'')
            else Inr \<lparr>shape = map nat dims, data = data a\<rparr>))"

subsection \<open>The state of a NeuralManager\<close>

text \<open>
  The attributes of the object. A table is the array of its values; \<open>None\<close> is
  Python's \<open>None\<close>, except for \<open>y_train_unrolled\<close> and \<open>y_test_unrolled\<close>, which
  \<open>__init__\<close> does not create: there \<open>None\<close> means that the attribute does not exist.
\<close>

record ('a, 'l, 'p) manager =
  X_train :: "'a ndarray option"
  X_test :: "'a ndarray option"
  y_train :: "'a ndarray option"
  y_test :: "'a ndarray option"
  X_train_normalized :: "'a ndarray option"
  X_test_normalized :: "'a ndarray option"
  X_train_unrolled :: "'a ndarray option"
  X_test_unrolled :: "'a ndarray option"
  y_train_unrolled :: "'a ndarray option"
  y_test_unrolled :: "'a ndarray option"
  model :: "'l sequential option"
  scaler :: "'p scaler_state option"
  train_test_init :: "(string, bool) dict"

text \<open>The object as \<open>__init__\<close> leaves it before it loads the files.\<close>

definition init :: "('a, 'l, 'p) manager" where
  "init = \<lparr>X_train = None, X_test = None, y_train = None, y_test = None,
           X_train_normalized = None, X_test_normalized = None,
           X_train_unrolled = None, X_test_unrolled = None,
           y_train_unrolled = None, y_test_unrolled = None,
           model = None, scaler = None, train_test_init = []\<rparr>"

subsection \<open>normalize\_X\<close>

text \<open>
  \<open>StandardScaler\<close> is the library's default class. The new scaler object is bound
  to \<open>self.scaler\<close> first; an exception in one of the two library calls leaves the
  attributes assigned so far.
\<close>

definition normalize_X ::
  "('a, 'p) scaler_class \<Rightarrow> ('a, 'l, 'p) manager \<Rightarrow> ('a, 'p) scaler_class option \<Rightarrow>
   ('a, 'l, 'p) manager \<times> ('a, 'l) event list \<times> (error + bool)" where
  "normalize_X StandardScaler self scaler_arg =
     (let c = (case scaler_arg of None \<Rightarrow> StandardScaler | Some cls \<Rightarrow> cls);
          self1 = self\<lparr>scaler := Some Unfitted\<rparr>;
          (s1, r1) = scaler_fit_transform c Unfitted (X_train self1);
          self2 = self1\<lparr>scaler := Some s1\<rparr>
      in case r1 of
           Inl e \<Rightarrow> (self2, [Scaler_fit_transform (X_train self)], Inl e)
         | Inr xn \<Rightarrow>
             (let self3 = self2\<lparr>X_train_normalized := Some xn\<rparr>;
                  (s2, r2) = scaler_transform c s1 (X_test self3);
                  self4 = self3\<lparr>scaler := Some s2\<rparr>
              in case r2 of
                   Inl e \<Rightarrow>
                     (self4,
                      [Scaler_fit_transform (X_train self), Scaler_transform (X_test self)],
                      Inl e)
                 | Inr xt \<Rightarrow>
                     (self4\<lparr>X_test_normalized := Some xt\<rparr>,
                      [Scaler_fit_transform (X_train self), Scaler_transform (X_test self)],
                      Inr True)))"

subsection \<open>split\_X\_to\_sequencees\<close>

text \<open>
  One of the two statements of the method: the arguments are evaluated
  (\<open>self.y_train.values\<close> needs a table), the windower is called, and its result is
  unpacked into two attributes. \<open>False\<close> cannot be unpacked.
\<close>

definition unroll_and_unpack ::
  "'a ndarray option \<Rightarrow> 'a ndarray option \<Rightarrow> int \<Rightarrow>
   ('a, 'l) event list \<times> (error + 'a ndarray \<times> 'a ndarray)" where
  "unroll_and_unpack X_normalized y_table sequence_len =
     (case y_table of
        None \<Rightarrow> ([], Inl (AttributeError ''NoneType object has no attribute values''))
      | Some yv \<Rightarrow>
          (case X_normalized of
             None \<Rightarrow> ([], Inl (TypeError ''object of type NoneType has no len()''))
           | Some xn \<Rightarrow>
               (case unroll_array_to_sequence xn yv sequence_len of
                  (out, Inl e) \<Rightarrow> (map Print out, Inl e)
                | (out, Inr RetFalse) \<Rightarrow>
                    (map Print out, Inl (TypeError ''cannot unpack non-iterable bool object''))
                | (out, Inr (RetPair wx wy)) \<Rightarrow> (map Print out, Inr (wx, wy)))))"

definition split_X_to_sequencees ::
  "('a, 'l, 'p) manager \<Rightarrow> int \<Rightarrow>
   ('a, 'l, 'p) manager \<times> ('a, 'l) event list \<times> (error + unit)" where
  "split_X_to_sequencees self sequence_len =
     (case unroll_and_unpack (X_train_normalized self) (y_train self) sequence_len of
        (ev1, Inl e) \<Rightarrow> (self, ev1, Inl e)
      | (ev1, Inr (wx, wy)) \<Rightarrow>
          (let self1 = self\<lparr>X_train_unrolled := Some wx, y_train_unrolled := Some wy\<rparr>
           in case unroll_and_unpack (X_test_normalized self1) (y_test self1) sequence_len of
                (ev2, Inl e) \<Rightarrow> (self1, ev1 @ ev2, Inl e)
              | (ev2, Inr (vx, vy)) \<Rightarrow>
                  (self1\<lparr>X_test_unrolled := Some vx, y_test_unrolled := Some vy\<rparr>,
                   ev1 @ ev2, Inr ())))"

subsection \<open>model\_combine\<close>

text \<open>The loop \<open>for layer in template: self.model.add(layer)\<close>.\<close>

fun add_layers ::
  "('a, 'l) libs \<Rightarrow> 'l sequential \<Rightarrow> 'l list \<Rightarrow>
   'l sequential \<times> ('a, 'l) event list \<times> error option" where
  "add_layers L m [] = (m, [], None)"
| "add_layers L m (layer # rest) =
     (case add_error L (layers m) layer of
        Some e \<Rightarrow> (m, [Keras_add layer], Some e)
      | None \<Rightarrow>
          (case add_layers L (m\<lparr>layers := layers m @ [layer]\<rparr>) rest of
             (m', evs, r) \<Rightarrow> (m', Keras_add layer # evs, r)))"

definition compile_defaults :: "(string, pyval) dict" where
  "compile_defaults =
     [(''optimizer'', VStr ''adam''), (''loss'', VStr ''rmse''),
      (''metrics'', VList [VStr ''mae''])]"

text \<open>
  \<open>metrics\<close> is bound to \<open>['mae']\<close> when it is \<open>None\<close> and is not read again.
  \<open>self.model.compile(**compile_dict)\<close> is not under the \<open>if\<close>: unpacking \<open>None\<close>
  with \<open>**\<close> raises TypeError before the library is entered.
\<close>

definition model_combine ::
  "('a, 'l) libs \<Rightarrow> ('a, 'l, 'p) manager \<Rightarrow> 'l list \<Rightarrow> bool \<Rightarrow>
   (string, pyval) dict option \<Rightarrow> pyval \<Rightarrow> bool \<Rightarrow>
   ('a, 'l, 'p) manager \<times> ('a, 'l) event list \<times> (error + bool)" where
  "model_combine L self template compile_model compile_dict metrics verbose =
     (case add_layers L \<lparr>layers = [], compiled = None\<rparr> template of
        (m, evs, Some e) \<Rightarrow> (self\<lparr>model := Some m\<rparr>, evs, Inl e)
      | (m, evs, None) \<Rightarrow>
          (let self1 = self\<lparr>model := Some m\<rparr>;
               metrics1 = (if metrics = VNone then VList [VStr ''mae''] else metrics);
               compile_dict1 =
                 (if compile_model \<and> compile_dict = None
                  then Some (helpers_set_dict_default [] (KeysDict compile_defaults))
                  else compile_dict)
           in case compile_dict1 of
                None \<Rightarrow>
                  (self1, evs,
                   Inl (TypeError ''argument after ** must be a mapping, not NoneType''))
              | Some d \<Rightarrow>
                  (case compile_error L (layers m) d of
                     Some e \<Rightarrow> (self1, evs @ [Keras_compile d], Inl e)
                   | None \<Rightarrow>
                       (let m1 = m\<lparr>compiled := Some d\<rparr>;
                            self2 = self1\<lparr>model := Some m1\<rparr>;
                            evs1 = evs @ [Keras_compile d, Print ''>>> model compiled'']
                        in if verbose
                           then (case summary_error L m1 of
                                   Some e \<Rightarrow> (self2, evs1 @ [Keras_summary], Inl e)
                                 | None \<Rightarrow> (self2, evs1 @ [Keras_summary], Inr True))
                           else (self2, evs1, Inr True)))))"

subsection \<open>The chart formatter\<close>

text \<open>
  The names bound at module level once the file is imported: its imports and the
  class. The methods of \<open>NeuralManager\<close> are attributes of the class, not names of
  the module. A bare name in a method body that is not a local is looked up among
  the module's names and then the builtins (here: the builtins the file uses);
  the class body is not searched.
\<close>

definition module_globals :: "string list" where
  "module_globals =
     [''keras'', ''pd'', ''np'', ''glob'', ''os'', ''plt'',
      ''StandardScaler'', ''MinMaxScaler'', ''RobustScaler'', ''NeuralManager'']"

definition builtins :: "string list" where
  "builtins = [''dict'', ''print'', ''len'', ''range'', ''isinstance'', ''list'', ''enumerate'']"

definition load_global :: "string \<Rightarrow> error + unit" where
  "load_global name =
     (if name \<in> set module_globals \<or> name \<in> set builtins
      then Inr () else Inl (NameError name))"

text \<open>
  \<open>_plt_label_Series\<close>: one \<open>ax.text\<close> per point. \<open>val + shift\<close> needs a number for
  \<open>shift\<close> as soon as there is a point.
\<close>

fun label_loop ::
  "('a \<Rightarrow> string) \<Rightarrow> 'a ax_cmd list \<Rightarrow> (nat \<times> 'a) list \<Rightarrow> ('a::plus) propval \<Rightarrow>
   'a ax_cmd list \<times> (error + unit)" where
  "label_loop fmt ax [] shift = (ax, Inr ())"
| "label_loop fmt ax ((i, val) # rest) shift =
     (case shift of
        PNum s \<Rightarrow> label_loop fmt (ax @ [Text i (val + s) (fmt val)]) rest shift
      | PNone \<Rightarrow> (ax, Inl (TypeError ''unsupported operand type(s) for +''))
      | PStr t \<Rightarrow> (ax, Inl (TypeError ''unsupported operand type(s) for +''))
      | PSeries t \<Rightarrow> (ax, Inl (TypeError ''unsupported operand type(s) for +'')))"

definition plt_label_Series ::
  "('a \<Rightarrow> string) \<Rightarrow> 'a ax_cmd list \<Rightarrow> ('a::plus) propval \<Rightarrow> 'a propval \<Rightarrow>
   'a ax_cmd list \<times> (error + unit)" where
  "plt_label_Series fmt ax arr_of_labels shift =
     (case arr_of_labels of
        PSeries vals \<Rightarrow> label_loop fmt ax (List.enumerate 0 vals) shift
      | PStr t \<Rightarrow>
          (if t = [] then (ax, Inr ())
           else (ax, Inl (TypeError ''unsupported operand type(s) for +'')))
      | PNone \<Rightarrow> (ax, Inl (TypeError ''NoneType object is not iterable''))
      | PNum v \<Rightarrow> (ax, Inl (TypeError ''float object is not iterable'')))"

text \<open>
  \<open>_helpers_plt_set_ax_properties\<close>: four calls on the surface, then the call of
  the bare name \<open>_plt_label_Series\<close>, which is looked up before its arguments are
  evaluated, then the limits, the title and the axis labels.
\<close>

definition helpers_plt_set_ax_properties ::
  "('a \<Rightarrow> string) \<Rightarrow> 'a ax_cmd list \<Rightarrow> (string, ('a::plus) propval) dict \<Rightarrow>
   'a ax_cmd list \<times> (error + unit)" where
  "helpers_plt_set_ax_properties fmt ax ax_properties =
     (let ax1 = ax @ [Legend 3, Spine_set_visible ''right'' False,
                      Spine_set_visible ''top'' False, Grid True ''0.90'']
      in case load_global ''_plt_label_Series'' of
           Inl e \<Rightarrow> (ax1, Inl e)
         | Inr u \<Rightarrow>
        (case dict_getitem ax_properties ''label_series_base'' of
           Inl e \<Rightarrow> (ax1, Inl e)
         | Inr series \<Rightarrow>
        (case dict_getitem ax_properties ''shift'' of
           Inl e \<Rightarrow> (ax1, Inl e)
         | Inr shift \<Rightarrow>
        (case plt_label_Series fmt ax1 series shift of
           (ax2, Inl e) \<Rightarrow> (ax2, Inl e)
         | (ax2, Inr u2) \<Rightarrow>
        (case dict_getitem ax_properties ''y_lim'' of
           Inl e \<Rightarrow> (ax2, Inl e)
         | Inr y_lim \<Rightarrow>
        (case dict_getitem ax_properties ''ch_title'' of
           Inl e \<Rightarrow> (ax2 @ [Set_ylim y_lim], Inl e)
         | Inr title \<Rightarrow>
        (case dict_getitem ax_properties ''x_label'' of
           Inl e \<Rightarrow> (ax2 @ [Set_ylim y_lim, Set_title title], Inl e)
         | Inr x_label \<Rightarrow>
        (case dict_getitem ax_properties ''y_label'' of
           Inl e \<Rightarrow> (ax2 @ [Set_ylim y_lim, Set_title title, Set_xlabel x_label], Inl e)
         | Inr y_label \<Rightarrow>
             (ax2 @ [Set_ylim y_lim, Set_title title, Set_xlabel x_label,
                     Set_ylabel y_label], Inr ())))))))))"

subsection \<open>model\_fit\<close>

text \<open>\<open>self.X_train.shape[1]\<close> and \<open>x.reshape(x.shape[0], n_seq, n_steps, n_features)\<close>.\<close>

definition n_features_of :: "'a ndarray option \<Rightarrow> error + int" where
  "n_features_of table =
     (case table of
        None \<Rightarrow> Inl (AttributeError ''NoneType object has no attribute shape'')
      | Some t \<Rightarrow>
          (case shape t of
             n # f # rest \<Rightarrow> Inr (int f)
           | _ \<Rightarrow> Inl (IndexError ''tuple index out of range'')))"

definition reshape_batch :: "'a ndarray \<Rightarrow> int \<Rightarrow> int \<Rightarrow> int \<Rightarrow> error + 'a ndarray" where
  "reshape_batch x n_seq n_steps n_features =
     (case shape x of
        [] \<Rightarrow> Inl (IndexError ''tuple index out of range'')
      | n # rest \<Rightarrow> nd_reshape x [int n, n_seq, n_steps, n_features])"

text \<open>
  The lines between the defaults and the call of \<open>fit\<close>: they read the attributes
  in the order of the source and reshape the two feature batches.
\<close>

definition fit_inputs ::
  "('a, 'l, 'p) manager \<Rightarrow> int \<Rightarrow> int \<Rightarrow>
   error + ('a ndarray \<times> 'a ndarray \<times> 'a ndarray \<times> 'a ndarray)" where
  "fit_inputs self n_seq n_steps =
     (case n_features_of (X_train self) of
        Inl e \<Rightarrow> Inl e
      | Inr n_features \<Rightarrow>
     (case y_train_unrolled self of
        None \<Rightarrow> Inl (AttributeError ''NeuralManager object has no attribute y_train_unrolled'')
      | Some y_tr \<Rightarrow>
     (case X_train_unrolled self of
        None \<Rightarrow> Inl (AttributeError ''NoneType object has no attribute reshape'')
      | Some x_tr0 \<Rightarrow>
     (case reshape_batch x_tr0 n_seq n_steps n_features of
        Inl e \<Rightarrow> Inl e
      | Inr x_tr \<Rightarrow>
     (case y_test_unrolled self of
        None \<Rightarrow> Inl (AttributeError ''NeuralManager object has no attribute y_test_unrolled'')
      | Some y_te \<Rightarrow>
     (case X_test_unrolled self of
        None \<Rightarrow> Inl (AttributeError ''NoneType object has no attribute reshape'')
      | Some x_te0 \<Rightarrow>
     (case reshape_batch x_te0 n_seq n_steps n_features of
        Inl e \<Rightarrow> Inl e
      | Inr x_te \<Rightarrow> Inr (x_tr, y_tr, x_te, y_te))))))))"

text \<open>
  The chart branch: it binds \<open>loss\<close> and \<open>val_loss\<close>, draws the two lines on a new
  surface and calls the formatter. Its value is the \<open>val_loss\<close> it has bound.
\<close>

definition loss_chart ::
  "('a, 'l) libs \<Rightarrow> (string, ('a::plus) list) dict \<Rightarrow>
   ('a, 'l) event list \<times> (error + 'a list)" where
  "loss_chart L history =
     (case dict_getitem history ''loss'' of
        Inl e \<Rightarrow> ([], Inl e)
      | Inr loss \<Rightarrow>
          (case dict_getitem history ''val_loss'' of
             Inl e \<Rightarrow> ([], Inl e)
           | Inr val_loss \<Rightarrow>
               (let ax_properties =
                      [(''ch_title'', PStr (''Loss by Epoch'' @ [CHR 0x0A])),
                       (''x_label'', PStr ''epochs''),
                       (''y_label'', PStr ''Loss''),
                       (''x_lim'', PNone),
                       (''y_lim'', PNone),
                       (''label_series_base'', PSeries val_loss),
                       (''shift'', PNum (float_5e_4 L))];
                    ax = [Plot loss ''train_loss'', Plot val_loss ''test_loss'']
                in case helpers_plt_set_ax_properties (format_4f L) ax ax_properties of
                     (ax', Inl e) \<Rightarrow> (Plt_subplots # map Ax ax', Inl e)
                   | (ax', Inr u) \<Rightarrow> (Plt_subplots # map Ax ax', Inr val_loss))))"

text \<open>
  \<open>model_fit\<close> returns \<open>False\<close>, \<open>val_loss\<close> or (falling off the end) \<open>None\<close>.
  The local \<open>val_loss\<close> is bound in the chart branch only; reading it unbound
  raises UnboundLocalError.
\<close>

datatype 'a fit_ret =
    FitFalse
  | FitNone
  | FitValLoss "'a list"

definition model_fit ::
  "('a, 'l) libs \<Rightarrow> ('a::plus, 'l, 'p) manager \<Rightarrow> int option \<Rightarrow> int option \<Rightarrow> int option \<Rightarrow>
   int \<Rightarrow> int \<Rightarrow> bool \<Rightarrow> bool \<Rightarrow> bool \<Rightarrow>
   ('a, 'l, 'p) manager \<times> ('a, 'l) event list \<times> (error + 'a fit_ret)" where
  "model_fit L self n_epoch n_seq n_steps batch_size verbose
             print_charts use_tensorboard return_results =
     (case model self of
        None \<Rightarrow>
          (self, [Print ''>>>No model detected. First you have to combine it...''],
           Inr FitFalse)
      | Some m \<Rightarrow>
          (let n_epoch1 = (case n_epoch of None \<Rightarrow> 10 | Some v \<Rightarrow> v);
               n_seq1 = (case n_seq of None \<Rightarrow> 2 | Some v \<Rightarrow> v);
               n_steps1 = (case n_steps of None \<Rightarrow> 2 | Some v \<Rightarrow> v)
           in case fit_inputs self n_seq1 n_steps1 of
                Inl e \<Rightarrow> (self, [], Inl e)
              | Inr (x_tr, y_tr, x_te, y_te) \<Rightarrow>
                  (let call = Keras_fit x_tr y_tr n_epoch1 batch_size
                                        x_te y_te verbose
                   in case fit_history L m x_tr y_tr n_epoch1 batch_size
                                       x_te y_te verbose of
                        Inl e \<Rightarrow> (self, [call], Inl e)
                      | Inr history \<Rightarrow>
                          if print_charts \<and> \<not> use_tensorboard
                          then (case loss_chart L history of
                                  (evs, Inl e) \<Rightarrow> (self, call # evs, Inl e)
                                | (evs, Inr val_loss) \<Rightarrow>
                                    (self, call # evs,
                                     if return_results then Inr (FitValLoss val_loss)
                                     else Inr FitNone))
                          else (self, [call],
                                if return_results then Inl (UnboundLocalError ''val_loss'')
                                else Inr FitNone))))"

subsection \<open>A small scenario\<close>

text \<open>
  Concrete inputs for the evaluations below: libraries that accept every layer and
  every configuration and whose training run returns a two-epoch history, and a
  manager that is ready to fit: five rows of one feature, windows of length four,
  a compiled model of one layer; a table of four rows, and a manager that has
  normalized its tables and has not cut the windows yet.
\<close>

definition demo_libs :: "(real, string) libs" where
  "demo_libs =
     \<lparr>add_error = (\<lambda>ls l. None),
      compile_error = (\<lambda>ls d. None),
      summary_error = (\<lambda>m. None),
      fit_history = (\<lambda>m x y ep bs xv yv vb.
         Inr [(''loss'', [5, 3]), (''val_loss'', [6, 4])]),
      format_4f = (\<lambda>v. ''0.0000''),
      float_5e_4 = 5 / 10000\<rparr>"

definition demo_table :: "real ndarray" where
  "demo_table = \<lparr>shape = [5, 1], data = [1, 2, 3, 4, 5]\<rparr>"

definition demo_windows :: "real ndarray" where
  "demo_windows = \<lparr>shape = [1, 4, 1], data = [1, 2, 3, 4]\<rparr>"

definition demo_ready :: "(real, string, unit) manager" where
  "demo_ready =
     \<lparr>X_train = Some demo_table, X_test = Some demo_table,
      y_train = Some demo_table, y_test = Some demo_table,
      X_train_normalized = Some demo_table, X_test_normalized = Some demo_table,
      X_train_unrolled = Some demo_windows, X_test_unrolled = Some demo_windows,
      y_train_unrolled = Some demo_windows, y_test_unrolled = Some demo_windows,
      model = Some \<lparr>layers = [''Dense''], compiled = Some compile_defaults\<rparr>,
      scaler = Some (Fitted ()),
      train_test_init = [(''X_train'', True), (''X_test'', True),
                         (''y_train'', True), (''y_test'', True)]\<rparr>"

definition demo_short :: "real ndarray" where
  "demo_short = \<lparr>shape = [4, 1], data = [1, 2, 3, 4]\<rparr>"

definition demo_normalized :: "(real, string, unit) manager" where
  "demo_normalized =
     \<lparr>X_train = Some demo_table, X_test = Some demo_table,
      y_train = Some demo_table, y_test = Some demo_table,
      X_train_normalized = Some demo_table, X_test_normalized = Some demo_table,
      X_train_unrolled = None, X_test_unrolled = None,
      y_train_unrolled = None, y_test_unrolled = None,
      model = None, scaler = Some (Fitted ()),
      train_test_init = [(''X_train'', True), (''X_test'', True),
                         (''y_train'', True), (''y_test'', True)]\<rparr>"

definition demo_scaler :: "(real, real) scaler_class" where
  "demo_scaler =
     \<lparr>fit_params = (\<lambda>t. case t of
          None \<Rightarrow> Inl (ValueError ''Expected 2D array'')
        | Some a \<Rightarrow> Inr (sum_list (data a))),
      apply_params = (\<lambda>p t. case t of
          None \<Rightarrow> Inl (ValueError ''Expected 2D array'')
        | Some a \<Rightarrow> Inr (a\<lparr>data := map (\<lambda>v. v - p) (data a)\<rparr>))\<rparr>"

section \<open>Properties\<close>

subsection \<open>Slicing and stacking\<close>

lemma nd_slice_shaped:
  "shape a = n # rest \<Longrightarrow>
   nd_slice a start stop =
     Inr \<lparr>shape = (slice_bound stop n - slice_bound start n) # rest,
          data = take ((slice_bound stop n - slice_bound start n) * prod_list rest)
                      (drop (slice_bound start n * prod_list rest) (data a))\<rparr>"
  by (simp add: nd_slice_def Let_def)

lemma unroll_loop_shaped:
  "shape X = n # sx \<Longrightarrow> shape y = n # sy \<Longrightarrow>
   unroll_loop X y L idxs accX accy =
     Inr (accX @ map (window X L) idxs, accy @ map (window y L) idxs)"
proof (induction idxs arbitrary: accX accy)
  case Nil
  then show ?case by simp
next
  case (Cons i idxs)
  then show ?case
    by (simp add: nd_slice_shaped window_def)
qed

lemma chunk_of_concat:
  "list_all (\<lambda>c. length c = m) cs \<Longrightarrow> i < length cs \<Longrightarrow>
   take m (drop (i * m) (concat cs)) = cs ! i"
proof (induction cs arbitrary: i)
  case Nil
  then show ?case by simp
next
  case (Cons c cs)
  show ?case
  proof (cases i)
    case 0
    with Cons.prems show ?thesis by simp
  next
    case (Suc j)
    with Cons.prems have "take m (drop (j * m) (concat cs)) = cs ! j"
      using Cons.IH [of j] by simp
    with Suc Cons.prems show ?thesis by simp
  qed
qed

lemma slice_bound_nat [simp]: "slice_bound (int i) n = min i n"
  by (simp add: slice_bound_def)


lemma np_asarray_uniform:
  "ws \<noteq> [] \<Longrightarrow> list_all (\<lambda>v. shape v = s) ws \<Longrightarrow>
   np_asarray ws = Inr \<lparr>shape = length ws # s, data = concat (map data ws)\<rparr>"
  by (cases ws) (auto simp: list_all_iff)

lemma window_inside:
  assumes "shape a = n # rest" and "0 \<le> L" and "i + nat L \<le> n"
  shows "window a L i =
           \<lparr>shape = nat L # rest,
            data = take (nat L * prod_list rest) (drop (i * prod_list rest) (data a))\<rparr>"
proof -
  have "int i + L = int (i + nat L)" using assms(2) by simp
  then have "slice_bound (int i + L) n = i + nat L"
    using assms(3) by (simp only: slice_bound_nat)
  moreover have "slice_bound (int i) n = i" using assms(3) by simp
  ultimately show ?thesis
    using assms(1) by (simp add: window_def nd_slice_shaped)
qed

lemma window_length:
  assumes "shape a = n # rest" and "wf_nd a" and "0 \<le> L" and "i + nat L \<le> n"
  shows "length (data (window a L i)) = nat L * prod_list rest"
proof -
  have "(i + nat L) * prod_list rest \<le> n * prod_list rest"
    using assms(4) by (rule mult_le_mono1)
  then have "nat L * prod_list rest \<le> length (data a) - i * prod_list rest"
    using assms(1,2) by (simp add: wf_nd_def add_mult_distrib)
  then show ?thesis
    using assms by (simp add: window_inside)
qed

lemma row_of_window:
  assumes "j < l"
  shows "take p (drop (j * p) (take (l * p) (drop (i * p) d))) = take p (drop ((i + j) * p) d)"
proof -
  have "1 \<le> l - j" using assms by simp
  then have "1 * p \<le> (l - j) * p" by (rule mult_le_mono1)
  then have "p \<le> (l - j) * p" by simp
  then have "min p (l * p - j * p) = p" by (simp add: diff_mult_distrib)
  then show ?thesis
    by (simp add: drop_take add_mult_distrib add.commute)
qed

lemma rows_of_window:
  assumes "shape a = n # rest" and "0 \<le> L" and "i + nat L \<le> n"
  shows "nd_rows (window a L i) = take (nat L) (drop i (nd_rows a))"
proof -
  let ?p = "prod_list rest"
  let ?f = "\<lambda>k. \<lparr>shape = rest, data = take ?p (drop (k * ?p) (data a))\<rparr>"
  have "nd_rows (window a L i) = map (\<lambda>j. ?f (i + j)) [0 ..< nat L]"
    using assms by (simp add: window_inside nd_rows_def row_of_window)
  also have "\<dots> = map ?f (map (\<lambda>j. i + j) [0 ..< nat L])" by (simp add: comp_def)
  also have "map (\<lambda>j. i + j) [0 ..< nat L] = [i ..< i + nat L]"
    by (simp add: map_add_upt add.commute)
  also have "map ?f [i ..< i + nat L] = take (nat L) (drop i (map ?f [0 ..< n]))"
    using assms(3) by (simp add: take_map drop_map drop_upt take_upt)
  finally show ?thesis using assms(1) by (simp add: nd_rows_def)
qed

lemma rows_of_stack:
  assumes "list_all (\<lambda>v. shape v = s \<and> length (data v) = prod_list s) ws"
  shows "nd_rows \<lparr>shape = length ws # s, data = concat (map data ws)\<rparr> = ws"
proof (rule nth_equalityI)
  show "length (nd_rows \<lparr>shape = length ws # s, data = concat (map data ws)\<rparr>) = length ws"
    by (simp add: nd_rows_def)
next
  fix i
  assume "i < length (nd_rows \<lparr>shape = length ws # s, data = concat (map data ws)\<rparr>)"
  then have i: "i < length ws" by (simp add: nd_rows_def)
  have "list_all (\<lambda>c. length c = prod_list s) (map data ws)"
    using assms by (simp add: list_all_iff)
  then have "take (prod_list s) (drop (i * prod_list s) (concat (map data ws))) = data (ws ! i)"
    using i by (simp add: chunk_of_concat)
  moreover have "shape (ws ! i) = s"
    using assms i by (simp add: list_all_length)
  ultimately show "nd_rows \<lparr>shape = length ws # s, data = concat (map data ws)\<rparr> ! i = ws ! i"
    using i by (simp add: nd_rows_def)
qed


lemma unroll_result:
  assumes "shape X = n # sx" and "shape y = n # sy" and "0 \<le> L" and "L < int n"
  shows "unroll_array_to_sequence X y L =
     ([], Inr (RetPair
        \<lparr>shape = (n - nat L) # nat L # sx,
         data = concat (map data (map (window X L) [0 ..< n - nat L]))\<rparr>
        \<lparr>shape = (n - nat L) # nat L # sy,
         data = concat (map data (map (window y L) [0 ..< n - nat L]))\<rparr>))"
proof -
  let ?k = "n - nat L"
  have k: "nat (int n - L) = ?k" using assms(3) by simp
  have pos: "[0 ..< ?k] \<noteq> []" using assms(3,4) by simp
  have inside: "i + nat L \<le> n" if "i \<in> set [0 ..< ?k]" for i
    using that by simp
  have sx: "list_all (\<lambda>v. shape v = nat L # sx) (map (window X L) [0 ..< ?k])"
    using assms(1,3) inside by (simp add: list_all_iff window_inside)
  have sy: "list_all (\<lambda>v. shape v = nat L # sy) (map (window y L) [0 ..< ?k])"
    using assms(2,3) inside by (simp add: list_all_iff window_inside)
  have ne: "map (window X L) [0 ..< ?k] \<noteq> []" "map (window y L) [0 ..< ?k] \<noteq> []"
    using pos by simp_all
  show ?thesis
    using assms(1,2)
    by (simp add: unroll_array_to_sequence_def py_len_def k
        unroll_loop_shaped [OF assms(1,2)]
        np_asarray_uniform [OF ne(1) sx] np_asarray_uniform [OF ne(2) sy])
qed

lemma stacked_windows_rows:
  assumes "shape a = n # rest" and "wf_nd a" and "0 \<le> L"
  shows "nd_rows \<lparr>shape = (n - nat L) # nat L # rest,
                  data = concat (map data (map (window a L) [0 ..< n - nat L]))\<rparr>
         = map (window a L) [0 ..< n - nat L]"
proof -
  let ?ws = "map (window a L) [0 ..< n - nat L]"
  have "shape (window a L i) = nat L # rest \<and>
        length (data (window a L i)) = prod_list (nat L # rest)"
    if "i \<in> set [0 ..< n - nat L]" for i
  proof -
    have le: "i + nat L \<le> n" using that by simp
    show ?thesis
      using window_inside [OF assms(1,3) le] window_length [OF assms(1,2,3) le] by simp
  qed
  then have "list_all (\<lambda>v. shape v = nat L # rest \<and> length (data v) = prod_list (nat L # rest)) ?ws"
    by (simp add: list_all_iff)
  then have "nd_rows \<lparr>shape = length ?ws # nat L # rest, data = concat (map data ?ws)\<rparr> = ?ws"
    by (rule rows_of_stack)
  then show ?thesis by simp
qed

text \<open>
  The windows for a Python int \<open>L\<close> with \<open>0 \<le> L < n\<close>: the call returns a pair of
  arrays and prints nothing, each array holds \<open>n - L\<close> windows, and window \<open>i\<close> is
  rows \<open>i, \<dots>, i + L - 1\<close> of its table.
\<close>

lemma unroll_windows_int:
  assumes "wf_nd X" and "wf_nd y"
    and "shape X = n # sx" and "shape y = n # sy"
    and "0 \<le> L" and "L < int n"
  shows "\<exists>wx wy.
     unroll_array_to_sequence X y L = ([], Inr (RetPair wx wy)) \<and>
     length (nd_rows wx) = n - nat L \<and>
     length (nd_rows wy) = n - nat L \<and>
     (\<forall>i < n - nat L.
        nd_rows (nd_rows wx ! i) = take (nat L) (drop i (nd_rows X)) \<and>
        nd_rows (nd_rows wy ! i) = take (nat L) (drop i (nd_rows y)) \<and>
        length (nd_rows (nd_rows wx ! i)) = nat L \<and>
        length (nd_rows (nd_rows wy ! i)) = nat L)"
proof -
  let ?k = "n - nat L"
  let ?wx = "\<lparr>shape = ?k # nat L # sx,
              data = concat (map data (map (window X L) [0 ..< ?k]))\<rparr>"
  let ?wy = "\<lparr>shape = ?k # nat L # sy,
              data = concat (map data (map (window y L) [0 ..< ?k]))\<rparr>"
  have res: "unroll_array_to_sequence X y L = ([], Inr (RetPair ?wx ?wy))"
    using assms(3-6) by (rule unroll_result)
  have rx: "nd_rows ?wx = map (window X L) [0 ..< ?k]"
    using assms(3,1,5) by (rule stacked_windows_rows)
  have ry: "nd_rows ?wy = map (window y L) [0 ..< ?k]"
    using assms(4,2,5) by (rule stacked_windows_rows)
  have lenX: "length (nd_rows X) = n" using assms(3) by (simp add: nd_rows_def)
  have lenY: "length (nd_rows y) = n" using assms(4) by (simp add: nd_rows_def)
  have each: "nd_rows (nd_rows ?wx ! i) = take (nat L) (drop i (nd_rows X)) \<and>
              nd_rows (nd_rows ?wy ! i) = take (nat L) (drop i (nd_rows y)) \<and>
              length (nd_rows (nd_rows ?wx ! i)) = nat L \<and>
              length (nd_rows (nd_rows ?wy ! i)) = nat L" if "i < ?k" for i
  proof -
    have le: "i + nat L \<le> n" using that by simp
    have wx: "nd_rows (window X L i) = take (nat L) (drop i (nd_rows X))"
      using assms(3,5) le by (rule rows_of_window)
    have wy: "nd_rows (window y L i) = take (nat L) (drop i (nd_rows y))"
      using assms(4,5) le by (rule rows_of_window)
    have nx: "nd_rows ?wx ! i = window X L i" and ny: "nd_rows ?wy ! i = window y L i"
      using that by (simp_all only: rx ry nth_map length_upt nth_upt) simp_all
    show ?thesis
      using le by (simp only: nx ny wx wy length_take length_drop lenX lenY) simp
  qed
  have "length (nd_rows ?wx) = ?k" "length (nd_rows ?wy) = ?k"
    by (simp_all only: rx ry length_map length_upt)
  with res each show ?thesis by blast
qed

text \<open>
  Claim C1. For tables \<open>X\<close> and \<open>y\<close> with the same number \<open>n\<close> of rows and every
  window length \<open>l < n\<close>, the windower returns a pair of arrays and prints
  nothing; each array holds exactly \<open>n - l\<close> windows; window \<open>i\<close> of the features
  is rows \<open>i, \<dots>, i + l - 1\<close> of \<open>X\<close>, window \<open>i\<close> of the targets is the same rows
  of \<open>y\<close>, and every window has exactly \<open>l\<close> rows (nothing is padded).
\<close>

theorem unroll_windows_exact:
  assumes "wf_nd X" and "wf_nd y"
    and "shape X = n # sx" and "shape y = n # sy"
    and "l < n"
  shows "\<exists>wx wy.
     unroll_array_to_sequence X y (int l) = ([], Inr (RetPair wx wy)) \<and>
     length (nd_rows wx) = n - l \<and>
     length (nd_rows wy) = n - l \<and>
     (\<forall>i < n - l.
        nd_rows (nd_rows wx ! i) = take l (drop i (nd_rows X)) \<and>
        nd_rows (nd_rows wy ! i) = take l (drop i (nd_rows y)) \<and>
        length (nd_rows (nd_rows wx ! i)) = l \<and>
        length (nd_rows (nd_rows wy ! i)) = l)"
proof -
  have "0 \<le> int l" and "int l < int n" using assms(5) by simp_all
  from unroll_windows_int [OF assms(1-4) this] show ?thesis by simp
qed

theorem unroll_windows_exact_witness:
  "\<exists>wx wy.
     unroll_array_to_sequence
        \<lparr>shape = [4, 2], data = [1, 2, 3, 4, 5, 6, 7, 8 :: int]\<rparr>
        \<lparr>shape = [4, 1], data = [10, 20, 30, 40 :: int]\<rparr> (int 2) = ([], Inr (RetPair wx wy)) \<and>
     length (nd_rows wx) = 2 \<and>
     length (nd_rows wy) = 2 \<and>
     nd_rows (nd_rows wx ! 0) =
        [\<lparr>shape = [2], data = [1, 2]\<rparr>, \<lparr>shape = [2], data = [3, 4]\<rparr>] \<and>
     nd_rows (nd_rows wx ! 1) =
        [\<lparr>shape = [2], data = [3, 4]\<rparr>, \<lparr>shape = [2], data = [5, 6]\<rparr>] \<and>
     nd_rows (nd_rows wy ! 0) =
        [\<lparr>shape = [1], data = [10]\<rparr>, \<lparr>shape = [1], data = [20]\<rparr>] \<and>
     nd_rows (nd_rows wy ! 1) =
        [\<lparr>shape = [1], data = [20]\<rparr>, \<lparr>shape = [1], data = [30]\<rparr>]"
proof -
  let ?X = "\<lparr>shape = [4, 2], data = [1, 2, 3, 4, 5, 6, 7, 8 :: int]\<rparr>"
  let ?y = "\<lparr>shape = [4, 1], data = [10, 20, 30, 40 :: int]\<rparr>"
  have rX: "nd_rows ?X = [\<lparr>shape = [2], data = [1, 2]\<rparr>, \<lparr>shape = [2], data = [3, 4]\<rparr>,
                          \<lparr>shape = [2], data = [5, 6]\<rparr>, \<lparr>shape = [2], data = [7, 8]\<rparr>]"
    by (simp add: nd_rows_def upt_rec)
  have ry: "nd_rows ?y = [\<lparr>shape = [1], data = [10]\<rparr>, \<lparr>shape = [1], data = [20]\<rparr>,
                          \<lparr>shape = [1], data = [30]\<rparr>, \<lparr>shape = [1], data = [40]\<rparr>]"
    by (simp add: nd_rows_def upt_rec)
  have "wf_nd ?X" "wf_nd ?y" "shape ?X = 4 # [2]" "shape ?y = 4 # [1]" "(2::nat) < 4"
    by (simp_all add: wf_nd_def)
  from unroll_windows_exact [OF this] obtain wx wy where
    run: "unroll_array_to_sequence ?X ?y (int 2) = ([], Inr (RetPair wx wy))"
    and lens: "length (nd_rows wx) = 4 - 2" "length (nd_rows wy) = 4 - 2"
    and each: "\<forall>i < 4 - 2.
        nd_rows (nd_rows wx ! i) = take 2 (drop i (nd_rows ?X)) \<and>
        nd_rows (nd_rows wy ! i) = take 2 (drop i (nd_rows ?y)) \<and>
        length (nd_rows (nd_rows wx ! i)) = 2 \<and>
        length (nd_rows (nd_rows wy ! i)) = 2"
    by blast
  from each have "nd_rows (nd_rows wx ! 0) = take 2 (drop 0 (nd_rows ?X))"
    and "nd_rows (nd_rows wx ! 1) = take 2 (drop 1 (nd_rows ?X))"
    and "nd_rows (nd_rows wy ! 0) = take 2 (drop 0 (nd_rows ?y))"
    and "nd_rows (nd_rows wy ! 1) = take 2 (drop 1 (nd_rows ?y))"
    by simp_all
  with run lens show ?thesis
    by (simp only: rX ry) auto
qed

text \<open>
  When the row counts of \<open>X\<close> and \<open>y\<close> differ, the windower itself raises nothing:
  it prints its message and returns \<open>False\<close>, a falsy value that holds no window.
\<close>

lemma unroll_mismatch_sentinel:
  assumes "shape X = n # sx" and "shape y = m # sy" and "n \<noteq> m"
  shows "unroll_array_to_sequence X y L =
           ([''>>> X and y data should have same len...''], Inr RetFalse) \<and>
         falsy (RetFalse :: ('a, 'b) unrolled)"
  using assms by (simp add: unroll_array_to_sequence_def py_len_def)

text \<open>
  The caller of the windower does not handle the sentinel: \<open>split_X_to_sequencees\<close>
  unpacks the result into two attributes, and unpacking \<open>False\<close> raises TypeError.
\<close>

lemma split_mismatch_raises:
  assumes "X_train_normalized self = Some xn" and "y_train self = Some yv"
    and "shape xn = n # sx" and "shape yv = k # sy" and "n \<noteq> k"
  shows "split_X_to_sequencees self sequence_len =
           (self, [Print ''>>> X and y data should have same len...''],
            Inl (TypeError ''cannot unpack non-iterable bool object''))"
  using assms
  by (simp add: split_X_to_sequencees_def unroll_and_unpack_def
      unroll_array_to_sequence_def py_len_def)

lemma demo_unroll:
  "unroll_array_to_sequence demo_table demo_table 4 =
     ([], Inr (RetPair demo_windows demo_windows))"
  by (simp add: unroll_array_to_sequence_def py_len_def nd_slice_def slice_bound_def
      demo_table_def demo_windows_def)

text \<open>
  Claim C2 asks that inputs whose row counts differ end in the falsy sentinel,
  with no fault and no partial output. Through \<open>split_X_to_sequencees\<close>, the one
  caller of the windower: with five feature rows and four target rows in the train
  split the call raises TypeError; with the mismatch in the test split it raises
  the same fault after the two train attributes have been assigned.
\<close>

theorem split_mismatch_faults:
  "split_X_to_sequencees (demo_normalized\<lparr>y_train := Some demo_short\<rparr>) 4 =
     (demo_normalized\<lparr>y_train := Some demo_short\<rparr>,
      [Print ''>>> X and y data should have same len...''],
      Inl (TypeError ''cannot unpack non-iterable bool object'')) \<and>
   split_X_to_sequencees (demo_normalized\<lparr>y_test := Some demo_short\<rparr>) 4 =
     (demo_normalized\<lparr>y_test := Some demo_short,
                      X_train_unrolled := Some demo_windows,
                      y_train_unrolled := Some demo_windows\<rparr>,
      [Print ''>>> X and y data should have same len...''],
      Inl (TypeError ''cannot unpack non-iterable bool object''))"
proof -
  have m: "unroll_array_to_sequence demo_table demo_short 4 =
     ([''>>> X and y data should have same len...''], Inr RetFalse)"
    by (simp add: unroll_array_to_sequence_def py_len_def demo_table_def demo_short_def)
  show ?thesis
    by (simp add: split_X_to_sequencees_def unroll_and_unpack_def demo_normalized_def
        m demo_unroll)
qed

subsection \<open>The shapes of the batches\<close>

text \<open>
  Claim C5. For a feature table of shape (20, 3) and a target table of shape
  (20, 1), whatever their cells (so for the train and for the test split), windows
  of length 4 give batches of shapes (16, 4, 3) and (16, 4, 1); \<open>n_features\<close> is 3,
  and the reshape of \<open>model_fit\<close> with \<open>n_seq = 2\<close> and \<open>n_steps = 2\<close> gives a batch
  of shape (16, 2, 2, 3).
\<close>

theorem window_and_reshape_shapes:
  assumes "shape X = [20, 3]" and "shape y = [20, 1]"
  shows "\<exists>wx wy xr.
           unroll_array_to_sequence X y 4 = ([], Inr (RetPair wx wy)) \<and>
           shape wx = [16, 4, 3] \<and> shape wy = [16, 4, 1] \<and>
           n_features_of (Some X) = Inr 3 \<and>
           reshape_batch wx 2 2 3 = Inr xr \<and> shape xr = [16, 2, 2, 3]"
proof -
  have "unroll_array_to_sequence X y 4 =
     ([], Inr (RetPair
        \<lparr>shape = (20 - nat 4) # nat 4 # [3],
         data = concat (map data (map (window X 4) [0 ..< 20 - nat 4]))\<rparr>
        \<lparr>shape = (20 - nat 4) # nat 4 # [1],
         data = concat (map data (map (window y 4) [0 ..< 20 - nat 4]))\<rparr>))"
    using assms by (intro unroll_result) simp_all
  then show ?thesis
    using assms(1) by (simp add: n_features_of_def reshape_batch_def nd_reshape_def)
qed

theorem window_and_reshape_shapes_witness:
  "\<exists>wx wy xr.
     unroll_array_to_sequence
        \<lparr>shape = [20, 3], data = replicate 60 (0 :: real)\<rparr>
        \<lparr>shape = [20, 1], data = replicate 20 (1 :: real)\<rparr> 4 = ([], Inr (RetPair wx wy)) \<and>
     shape wx = [16, 4, 3] \<and> shape wy = [16, 4, 1] \<and>
     reshape_batch wx 2 2 3 = Inr xr \<and> shape xr = [16, 2, 2, 3]"
  using window_and_reshape_shapes
    [of "\<lparr>shape = [20, 3], data = replicate 60 (0 :: real)\<rparr>"
        "\<lparr>shape = [20, 1], data = replicate 20 (1 :: real)\<rparr>"]
  by auto

subsection \<open>Default merging\<close>

lemma map_of_dict_setitem: "map_of (dict_setitem d k v) = (map_of d)(k \<mapsto> v)"
  by (induction d) auto

lemma dict_setitem_same: "map_of d k = Some v \<Longrightarrow> dict_setitem d k v = d"
  by (induction d) (auto split: if_splits)

lemma set_default_present: "map_of d k = Some v \<Longrightarrow> set_default k val d = d"
  by (simp add: set_default_def dict_setitem_same)

lemma map_of_set_default:
  "map_of (set_default key val d) k =
     (case map_of d k of Some v \<Rightarrow> Some v | None \<Rightarrow> (if k = key then Some val else None))"
  by (auto simp: set_default_def map_of_dict_setitem split: option.splits)

lemma map_of_merge:
  "map_of (fold (\<lambda>(key, val). set_default key val) items d) k =
     (case map_of d k of Some v \<Rightarrow> Some v | None \<Rightarrow> map_of items k)"
proof (induction items arbitrary: d)
  case Nil
  then show ?case by (simp split: option.splits)
next
  case (Cons kv items)
  obtain key val where kv: "kv = (key, val)" by (cases kv)
  show ?case
    by (simp add: kv Cons.IH map_of_set_default split: option.splits)
qed

lemma merge_covered:
  "list_all (\<lambda>(key, val). map_of d key \<noteq> None) items \<Longrightarrow>
   fold (\<lambda>(key, val). set_default key val) items d = d"
proof (induction items)
  case Nil
  then show ?case by simp
next
  case (Cons kv items)
  obtain key val where kv: "kv = (key, val)" by (cases kv)
  from Cons.prems kv obtain v where "map_of d key = Some v" by auto
  then have "set_default key val d = d" by (rule set_default_present)
  with Cons kv show ?case by simp
qed

text \<open>
  Claim C3. Merging a dict \<open>D\<close> against a dict of defaults: a key of \<open>D\<close> keeps the
  value it has in \<open>D\<close>, a key that \<open>D\<close> lacks reads as in the defaults (and is still
  absent when the defaults lack it too); merging the result against the same
  defaults once more gives the same dict, entry for entry and in the same order.
\<close>

theorem set_dict_default_merge:
  "map_of (helpers_set_dict_default D (KeysDict defaults)) k =
     (case map_of D k of Some v \<Rightarrow> Some v | None \<Rightarrow> map_of defaults k) \<and>
   helpers_set_dict_default (helpers_set_dict_default D (KeysDict defaults)) (KeysDict defaults) =
     helpers_set_dict_default D (KeysDict defaults)"
proof -
  let ?R = "fold (\<lambda>(key, val). set_default key val) defaults D"
  have look: "map_of ?R k' = (case map_of D k' of Some v \<Rightarrow> Some v | None \<Rightarrow> map_of defaults k')" for k'
    by (rule map_of_merge)
  have "map_of ?R key \<noteq> None" if "(key, val) \<in> set defaults" for key val
  proof -
    from that have "map_of defaults key \<noteq> None"
      by (metis map_of_eq_None_iff fst_conv image_eqI)
    then show ?thesis by (simp add: look split: option.splits)
  qed
  then have "list_all (\<lambda>(key, val). map_of ?R key \<noteq> None) defaults"
    by (auto simp: list_all_iff)
  then have "fold (\<lambda>(key, val). set_default key val) defaults ?R = ?R"
    by (rule merge_covered)
  with look show ?thesis by simp
qed

subsection \<open>The chart formatter and the fit\<close>

lemma load_label_series: "load_global ''_plt_label_Series'' = Inl (NameError ''_plt_label_Series'')"
  by (simp add: load_global_def module_globals_def builtins_def)

lemma formatter_raises:
  "helpers_plt_set_ax_properties fmt ax ax_properties =
     (ax @ [Legend 3, Spine_set_visible ''right'' False,
            Spine_set_visible ''top'' False, Grid True ''0.90''],
      Inl (NameError ''_plt_label_Series''))"
  by (simp add: helpers_plt_set_ax_properties_def load_label_series)

lemma loss_chart_raises: "\<exists>e. snd (loss_chart L history) = Inl e"
  by (simp add: loss_chart_def formatter_raises split: sum.splits)

lemma model_fit_never_val_loss:
  "snd (snd (model_fit L self n_epoch n_seq n_steps batch_size verbose
                       print_charts use_tensorboard return_results)) \<noteq> Inr (FitValLoss v)"
proof -
  have "r \<noteq> Inr v'" if "loss_chart L h = (evs, r)" for h evs r v'
    using loss_chart_raises [of L h] that by auto
  then show ?thesis
    by (auto simp: model_fit_def Let_def split: option.splits sum.splits prod.splits)
qed

text \<open>
  Claim C6 asks that \<open>model_fit\<close> with \<open>return_results\<close> set returns the validation
  loss whatever the other flags are. On a manager that is ready to fit, with a
  training run that succeeds: without charts, or with the tensorboard flag, the
  local \<open>val_loss\<close> was never bound and \<open>return val_loss\<close> raises; with charts, the
  formatter raises before the \<open>return\<close> is reached. (By the lemma above, no call
  whatsoever returns the validation loss.)
\<close>

theorem model_fit_return_results_raises:
  "snd (snd (model_fit demo_libs demo_ready None None None 32 2 False False True)) =
     Inl (UnboundLocalError ''val_loss'') \<and>
   snd (snd (model_fit demo_libs demo_ready None None None 32 2 True True True)) =
     Inl (UnboundLocalError ''val_loss'') \<and>
   snd (snd (model_fit demo_libs demo_ready None None None 32 2 True False True)) =
     Inl (NameError ''_plt_label_Series'')"
  by (simp add: model_fit_def fit_inputs_def n_features_of_def reshape_batch_def
      nd_reshape_def demo_ready_def demo_table_def demo_windows_def demo_libs_def
      loss_chart_def dict_getitem_def formatter_raises)

text \<open>
  Claim C9 asks that the formatter styles the surface without raising. With the
  surface of a new chart and the very bundle that \<open>model_fit\<close> builds, the call
  raises NameError after its first four drawing commands: \<open>_plt_label_Series\<close> is
  a method of the class and not a name of the module. No annotation, limit, title
  or axis label is applied.
\<close>

theorem formatter_name_error:
  "helpers_plt_set_ax_properties (\<lambda>v :: real. ''0.0000'') []
     [(''ch_title'', PStr ''Loss by Epoch''), (''x_label'', PStr ''epochs''),
      (''y_label'', PStr ''Loss''), (''x_lim'', PNone), (''y_lim'', PNone),
      (''label_series_base'', PSeries [6, 4]), (''shift'', PNum (5 / 10000))]
   = ([Legend 3, Spine_set_visible ''right'' False,
       Spine_set_visible ''top'' False, Grid True ''0.90''],
      Inl (NameError ''_plt_label_Series''))"
  by (simp add: formatter_raises)

text \<open>
  Claim C7. With no model assembled, \<open>model_fit\<close> raises nothing and returns
  \<open>False\<close>; the object is the one it was; the message is printed and nothing else
  happens, in particular no training run.
\<close>

theorem model_fit_without_model:
  assumes "model self = None"
  shows "model_fit L self n_epoch n_seq n_steps batch_size verbose
                   print_charts use_tensorboard return_results =
           (self, [Print ''>>>No model detected. First you have to combine it...''],
            Inr FitFalse) \<and>
         filter is_training
           (fst (snd (model_fit L self n_epoch n_seq n_steps batch_size verbose
                                print_charts use_tensorboard return_results))) = []"
  using assms by (simp add: model_fit_def)

theorem model_fit_without_model_witness:
  "model (init :: (real, string, unit) manager) = None \<and>
   model_fit demo_libs (init :: (real, string, unit) manager) None None None 32 2 True False True =
     (init, [Print ''>>>No model detected. First you have to combine it...''], Inr FitFalse)"
  using model_fit_without_model [of "init :: (real, string, unit) manager" demo_libs
      None None None 32 2 True False True]
  by (simp add: init_def)

subsection \<open>Assembling the model\<close>

lemma model_combine_ignores_metrics:
  "model_combine L self template compile_model compile_dict metrics verbose =
   model_combine L self template compile_model compile_dict VNone verbose"
  by (simp add: model_combine_def Let_def)

lemma default_config:
  "helpers_set_dict_default [] (KeysDict compile_defaults) = compile_defaults"
  by (simp add: compile_defaults_def set_default_def)

text \<open>
  Claim C4 asks that a \<open>metrics\<close> list supplied by the caller is the one compiled
  when the configuration is omitted. Called with \<open>metrics=['mse']\<close> and no
  configuration, the model is compiled with \<open>metrics=['mae']\<close>: the argument is
  dropped (by the lemma above, for every call).
\<close>

theorem model_combine_metrics_dropped:
  "model_combine demo_libs (init :: (real, string, unit) manager)
       [''Dense''] True None (VList [VStr ''mse'']) False =
     (init\<lparr>model := Some \<lparr>layers = [''Dense''],
                            compiled = Some [(''optimizer'', VStr ''adam''),
                                             (''loss'', VStr ''rmse''),
                                             (''metrics'', VList [VStr ''mae''])]\<rparr>\<rparr>,
      [Keras_add ''Dense'',
       Keras_compile [(''optimizer'', VStr ''adam''), (''loss'', VStr ''rmse''),
                      (''metrics'', VList [VStr ''mae''])],
       Print ''>>> model compiled''],
      Inr True)"
  by (simp add: model_combine_def compile_defaults_def set_default_def demo_libs_def)

text \<open>
  Claim C10. When the library has accepted every layer of the template:
  with \<open>compile_model=False\<close> and no configuration the call raises TypeError at
  \<open>compile(**None)\<close>, the model keeps its layers and the calls made are those of
  the loop; with a configuration \<open>d\<close> the library's compile is called with \<open>d\<close>
  whether the flag is \<open>False\<close> or \<open>True\<close>; with the flag \<open>True\<close> and no
  configuration it is called with the defaults.
\<close>

theorem model_combine_always_compiles:
  assumes "add_layers L \<lparr>layers = [], compiled = None\<rparr> template = (m, evs, None)"
  shows "model_combine L self template False None metrics verbose =
           (self\<lparr>model := Some m\<rparr>, evs,
            Inl (TypeError ''argument after ** must be a mapping, not NoneType'')) \<and>
         Keras_compile d \<in> set (fst (snd
           (model_combine L self template False (Some d) metrics verbose))) \<and>
         Keras_compile d \<in> set (fst (snd
           (model_combine L self template True (Some d) metrics verbose))) \<and>
         Keras_compile compile_defaults \<in> set (fst (snd
           (model_combine L self template True None metrics verbose)))"
proof -
  have none: "model_combine L self template False None metrics verbose =
           (self\<lparr>model := Some m\<rparr>, evs,
            Inl (TypeError ''argument after ** must be a mapping, not NoneType''))"
    using assms by (simp add: model_combine_def Let_def)
  have given: "Keras_compile d \<in> set (fst (snd
           (model_combine L self template flag (Some d) metrics verbose)))" for flag
    using assms by (simp add: model_combine_def Let_def split: option.splits)
  have dflt: "Keras_compile compile_defaults \<in> set (fst (snd
           (model_combine L self template True None metrics verbose)))"
    using assms
    by (simp add: model_combine_def Let_def default_config
        del: helpers_set_dict_default.simps split: option.splits)
  from none given [of False] given [of True] dflt show ?thesis by simp
qed

theorem model_combine_always_compiles_witness:
  "add_layers demo_libs \<lparr>layers = [], compiled = None\<rparr> [''Dense''] =
     (\<lparr>layers = [''Dense''], compiled = None\<rparr>, [Keras_add ''Dense''], None) \<and>
   model_combine demo_libs (init :: (real, string, unit) manager) [''Dense''] False None VNone True =
     (init\<lparr>model := Some \<lparr>layers = [''Dense''], compiled = None\<rparr>\<rparr>, [Keras_add ''Dense''],
      Inl (TypeError ''argument after ** must be a mapping, not NoneType''))"
proof -
  have a: "add_layers demo_libs \<lparr>layers = [], compiled = None\<rparr> [''Dense''] =
     (\<lparr>layers = [''Dense''], compiled = None\<rparr>, [Keras_add ''Dense''], None)"
    by (simp add: demo_libs_def)
  show ?thesis
    using a model_combine_always_compiles [OF a, of "init :: (real, string, unit) manager" VNone True]
    by simp
qed

subsection \<open>The scaler\<close>

text \<open>
  Claim C8. Whatever \<open>normalize_X\<close> returns, the one fitting call it has made is
  \<open>fit_transform\<close> on the training table, and if that fit gave the parameters \<open>p\<close>
  then the scaler holds \<open>p\<close> at the end, after the transform of the test table too.
  When the call returns \<open>True\<close>, the calls were \<open>fit_transform(X_train)\<close> and then
  \<open>transform(X_test)\<close>, and both normalized tables are the transforms with the
  parameters fitted on the training table.
\<close>

theorem normalize_X_fits_train_once:
  assumes "normalize_X StandardScaler self scaler_arg = (self', trace, r)"
    and "c = (case scaler_arg of None \<Rightarrow> StandardScaler | Some cls \<Rightarrow> cls)"
  shows "filter is_fit trace = [Scaler_fit_transform (X_train self)] \<and>
         (fit_params c (X_train self) = Inr p \<longrightarrow> scaler self' = Some (Fitted p)) \<and>
         (r = Inr True \<longrightarrow>
            (\<exists>q xn xt.
               trace = [Scaler_fit_transform (X_train self), Scaler_transform (X_test self)] \<and>
               fit_params c (X_train self) = Inr q \<and>
               scaler self' = Some (Fitted q) \<and>
               apply_params c q (X_train self) = Inr xn \<and>
               X_train_normalized self' = Some xn \<and>
               apply_params c q (X_test self) = Inr xt \<and>
               X_test_normalized self' = Some xt))"
  using assms
  by (auto simp: normalize_X_def scaler_fit_transform_def scaler_transform_def Let_def
      split: sum.splits option.splits)

theorem normalize_X_fits_train_once_witness:
  "normalize_X demo_scaler
      (init\<lparr>X_train := Some \<lparr>shape = [2, 1], data = [1, 3]\<rparr>,
            X_test := Some \<lparr>shape = [1, 1], data = [10]\<rparr>\<rparr> :: (real, string, real) manager)
      None =
     (init\<lparr>X_train := Some \<lparr>shape = [2, 1], data = [1, 3]\<rparr>,
           X_test := Some \<lparr>shape = [1, 1], data = [10]\<rparr>,
           X_train_normalized := Some \<lparr>shape = [2, 1], data = [- 3, - 1]\<rparr>,
           X_test_normalized := Some \<lparr>shape = [1, 1], data = [6]\<rparr>,
           scaler := Some (Fitted 4)\<rparr>,
      [Scaler_fit_transform (Some \<lparr>shape = [2, 1], data = [1, 3]\<rparr>),
       Scaler_transform (Some \<lparr>shape = [1, 1], data = [10]\<rparr>)],
      Inr True) \<and>
   filter is_fit
      [Scaler_fit_transform (Some \<lparr>shape = [2, 1], data = [1, 3 :: real]\<rparr>),
       Scaler_transform (Some \<lparr>shape = [1, 1], data = [10]\<rparr>) :: (real, string) event] =
      [Scaler_fit_transform (Some \<lparr>shape = [2, 1], data = [1, 3]\<rparr>)]"
proof -
  let ?self = "init\<lparr>X_train := Some \<lparr>shape = [2, 1], data = [1, 3]\<rparr>,
                     X_test := Some \<lparr>shape = [1, 1], data = [10]\<rparr>\<rparr> :: (real, string, real) manager"
  let ?self' = "?self\<lparr>X_train_normalized := Some \<lparr>shape = [2, 1], data = [- 3, - 1]\<rparr>,
                      X_test_normalized := Some \<lparr>shape = [1, 1], data = [6]\<rparr>,
                      scaler := Some (Fitted 4)\<rparr>"
  let ?trace = "[Scaler_fit_transform (Some \<lparr>shape = [2, 1], data = [1, 3 :: real]\<rparr>),
                 Scaler_transform (Some \<lparr>shape = [1, 1], data = [10]\<rparr>) :: (real, string) event]"
  have run: "normalize_X demo_scaler ?self None = (?self', ?trace, Inr True)"
    by (simp add: normalize_X_def scaler_fit_transform_def scaler_transform_def
        demo_scaler_def init_def)
  have "filter is_fit ?trace = [Scaler_fit_transform (X_train ?self)]"
    using normalize_X_fits_train_once [OF run, of demo_scaler] by simp
  with run show ?thesis by (simp add: init_def)
qed

end
